theory Spec2Isabelle
  imports Complex_Main "HOL-Library.Monad_Syntax"
begin

section \<open>The objects the script builds\<close>

text \<open>
  \<^verbatim>\<open>Network_Simulation.py\<close> is a script over the NEURON simulator, reached through
  the module object \<^verbatim>\<open>h\<close>. A cell is an instance of the template \<^verbatim>\<open>Mycell\<close>; the model
  identifies it by the order of its creation. Of a cell the script touches the soma and
  the first dendrite, always through a segment \<^verbatim>\<open>sec(x)\<close>.
\<close>

datatype secname = Soma | Dend nat

record segment =
  seg_cell :: nat
  seg_sec :: secname
  seg_x :: real

text \<open>\<^verbatim>\<open>cell.soma(x)\<close> and \<^verbatim>\<open>cell.dend[i](x)\<close>.\<close>

definition soma :: "nat \<Rightarrow> real \<Rightarrow> segment" where
  "soma cell pos = \<lparr>seg_cell = cell, seg_sec = Soma, seg_x = pos\<rparr>"

definition dend :: "nat \<Rightarrow> nat \<Rightarrow> real \<Rightarrow> segment" where
  "dend cell i pos = \<lparr>seg_cell = cell, seg_sec = Dend i, seg_x = pos\<rparr>"

text \<open>What a vector or a NetCon watches: \<^verbatim>\<open>seg._ref_v\<close> or \<^verbatim>\<open>h._ref_t\<close>.\<close>

datatype reference = Ref_v segment | Ref_t

text \<open>An \<^verbatim>\<open>h.IClamp\<close> with the three attributes the script assigns.\<close>

record iclamp =
  ic_seg :: segment
  ic_delay :: real
  ic_dur :: real
  ic_amp :: real

text \<open>
  \<^verbatim>\<open>def attach_current_clamp(cell, delay, dur, amp):
      stim = h.IClamp(cell.soma(0.5))
      stim.delay = delay
      stim.dur = dur
      stim.amp = amp
      return stim\<close>
\<close>

definition attach_current_clamp :: "nat \<Rightarrow> real \<Rightarrow> real \<Rightarrow> real \<Rightarrow> iclamp" where
  "attach_current_clamp cell delay dur amp =
     \<lparr>ic_seg = soma cell 0.5, ic_delay = delay, ic_dur = dur, ic_amp = amp\<rparr>"

text \<open>An \<^verbatim>\<open>h.Vector\<close>: what it records, and the samples it holds.\<close>

record vector =
  recording :: "reference option"
  samples :: "real list"

definition Vector :: vector where
  "Vector = \<lparr>recording = None, samples = []\<rparr>"

definition vec_record :: "vector \<Rightarrow> reference \<Rightarrow> vector" where
  "vec_record v r = v\<lparr>recording := Some r\<rparr>"

text \<open>
  \<^verbatim>\<open>def set_recording_vectors(cell):
      soma_v_vec = h.Vector()
      t_vec = h.Vector()
      soma_v_vec.record(cell.soma(0.5)._ref_v)
      t_vec.record(h._ref_t)
      return soma_v_vec, t_vec\<close>
\<close>

definition set_recording_vectors :: "nat \<Rightarrow> vector \<times> vector" where
  "set_recording_vectors cell =
     (let soma_v_vec = Vector;
          t_vec = Vector;
          soma_v_vec = vec_record soma_v_vec (Ref_v (soma cell 0.5));
          t_vec = vec_record t_vec Ref_t
      in (soma_v_vec, t_vec))"

text \<open>An \<^verbatim>\<open>h.ExpSyn\<close> sits on a segment.\<close>

record expsyn =
  syn_seg :: segment

definition ExpSyn :: "segment \<Rightarrow> expsyn" where
  "ExpSyn seg = \<lparr>syn_seg = seg\<rparr>"

text \<open>
  An \<^verbatim>\<open>h.NetCon(source, target, sec=section)\<close> with \<^verbatim>\<open>weight[0]\<close> and \<^verbatim>\<open>delay\<close> as
  the script assigns them right after the construction.
\<close>

record netcon =
  nc_source :: reference
  nc_target :: expsyn
  nc_sec :: "nat \<times> secname"
  nc_weight :: real
  nc_delay :: real

section \<open>The session: NEURON's globals and the script's variables\<close>

text \<open>
  The script keeps its objects in module-level variables and rebinds them from one
  notebook cell to the next; an object lives as long as a variable names it. The fields
  \<open>h_\<close> belong to NEURON, the fields \<open>g_\<close> are the script's variables (\<open>None\<close>: not
  bound). \<open>h_sim\<close> is whatever the simulator keeps between two calls.
\<close>

record 'e world =
  h_tstop :: real
  h_sim :: 'e
  h_created :: nat
  h_x :: "nat \<Rightarrow> real"
  g_N :: nat
  g_cells :: "nat list"
  g_stim :: "iclamp option"
  g_syn1 :: "expsyn option"
  g_nc1 :: "netcon option"
  g_syn2 :: "expsyn option"
  g_nc2 :: "netcon option"
  g_syn3 :: "expsyn option"
  g_nc3 :: "netcon option"
  g_soma_v_vec :: "vector option"
  g_t_vec :: "vector option"
  g_figure :: "(real list \<times> real list) list"

text \<open>
  \<^verbatim>\<open>h.run()\<close> is NEURON's and not part of the repository: it is a parameter of the
  model. An engine reads the session and hands back its own new state and, for every
  reference, the samples a vector recording that reference holds after the run.
\<close>

type_synonym 'e engine = "'e world \<Rightarrow> 'e \<times> (reference \<Rightarrow> real list)"

definition refill :: "(reference \<Rightarrow> real list) \<Rightarrow> vector \<Rightarrow> vector" where
  "refill out v = (case recording v of None \<Rightarrow> v | Some r \<Rightarrow> v\<lparr>samples := out r\<rparr>)"

definition h_run :: "'e engine \<Rightarrow> 'e world \<Rightarrow> 'e world" where
  "h_run run w =
     (case run w of (e, out) \<Rightarrow>
        w\<lparr>h_sim := e,
          g_soma_v_vec := map_option (refill out) (g_soma_v_vec w),
          g_t_vec := map_option (refill out) (g_t_vec w)\<rparr>)"

text \<open>
  \<^verbatim>\<open>def simulate(tstop=25):
      h.tstop = tstop
      h.run()\<close>
  The argument is optional: \<open>None\<close> is a call that leaves it out.
\<close>

definition simulate :: "'e engine \<Rightarrow> real option \<Rightarrow> 'e world \<Rightarrow> 'e world" where
  "simulate run tstop w =
     (let tstop = (case tstop of None \<Rightarrow> 25 | Some T \<Rightarrow> T);
          w = w\<lparr>h_tstop := tstop\<rparr>
      in h_run run w)"

section \<open>The notebook cells\<close>

text \<open>
  The cells In[7] to In[11] build the two networks. In[6] (one cell, eight amplitudes)
  stimulates and records only through the two functions above, and In[12] (the spike
  raster) builds vectors that watch no segment; neither is embedded, and the calls of
  \<^verbatim>\<open>pyplot\<close> are kept only as far as they say which vectors are drawn.
\<close>

text \<open>
  \<^verbatim>\<open>xs[i]\<close> for an index that is not negative; \<open>None\<close> is Python's IndexError (or a name
  that is not bound), which ends the script.
\<close>

definition getitem :: "'a list \<Rightarrow> nat \<Rightarrow> 'a option" where
  "getitem xs i = (if i < length xs then Some (xs ! i) else None)"

primrec for_each :: "('a \<Rightarrow> 's \<Rightarrow> 's option) \<Rightarrow> 'a list \<Rightarrow> 's \<Rightarrow> 's option" where
  "for_each body [] s = Some s"
| "for_each body (i # rest) s = (case body i s of None \<Rightarrow> None | Some s' \<Rightarrow> for_each body rest s')"

text \<open>\<^verbatim>\<open>cells = [h.Mycell() for i in range(N)]\<close>\<close>

definition new_cells :: "'e world \<Rightarrow> 'e world" where
  "new_cells w =
     w\<lparr>g_cells := map (\<lambda>i. h_created w + i) [0..<g_N w],
       h_created := h_created w + g_N w\<rparr>"

text \<open>\<^verbatim>\<open>cells[i].x = v\<close>\<close>

definition set_x :: "nat \<Rightarrow> real \<Rightarrow> 'e world \<Rightarrow> 'e world option" where
  "set_x i v w = do {
     cell \<leftarrow> getitem (g_cells w) i;
     Some (w\<lparr>h_x := (h_x w)(cell := v)\<rparr>)
   }"

text \<open>\<^verbatim>\<open>pyplot.plot(t_vec, soma_v_vec, ...)\<close> adds one curve to the figure.\<close>

definition plot :: "'e world \<Rightarrow> 'e world option" where
  "plot w = do {
     t_vec \<leftarrow> g_t_vec w;
     soma_v_vec \<leftarrow> g_soma_v_vec w;
     Some (w\<lparr>g_figure := g_figure w @ [(samples t_vec, samples soma_v_vec)]\<rparr>)
   }"

text \<open>
  The loop the three network experiments share:
  \<^verbatim>\<open>for i in range(N):
      soma_v_vec, t_vec = set_recording_vectors(cells[i])
      simulate(T)
      pyplot.plot(t_vec, soma_v_vec, ...)\<close>
\<close>

definition record_and_run :: "'e engine \<Rightarrow> real \<Rightarrow> nat \<Rightarrow> 'e world \<Rightarrow> 'e world option" where
  "record_and_run run T i w = do {
     cell \<leftarrow> getitem (g_cells w) i;
     let (soma_v_vec, t_vec) = set_recording_vectors cell;
     let w = w\<lparr>g_soma_v_vec := Some soma_v_vec, g_t_vec := Some t_vec\<rparr>;
     let w = simulate run (Some T) w;
     plot w
   }"

definition run_each_cell :: "'e engine \<Rightarrow> real \<Rightarrow> 'e world \<Rightarrow> 'e world option" where
  "run_each_cell run T w = for_each (record_and_run run T) [0..<g_N w] w"

text \<open>
  \<^verbatim>\<open>stim = attach_current_clamp(cells[0], 5, 1, 0.6)\<close>: the stimulus bound to \<^verbatim>\<open>stim\<close>
  before is no longer named by anything.
\<close>

definition stimulate_first :: "'e world \<Rightarrow> 'e world option" where
  "stimulate_first w = do {
     cell \<leftarrow> getitem (g_cells w) 0;
     Some (w\<lparr>g_stim := Some (attach_current_clamp cell 5 1 0.6)\<rparr>)
   }"

text \<open>In[7]: two cells, 100 microns apart.\<close>

definition In7 :: "'e world \<Rightarrow> 'e world option" where
  "In7 w = do {
     let w = w\<lparr>g_N := 2\<rparr>;
     let w = new_cells w;
     w \<leftarrow> set_x 0 0 w;
     set_x 1 100 w
   }"

text \<open>In[8]: the first cell is stimulated, each cell is recorded over its own run of 25 ms.\<close>

definition In8 :: "'e engine \<Rightarrow> 'e world \<Rightarrow> 'e world option" where
  "In8 run w = do {
     w \<leftarrow> stimulate_first w;
     let w = w\<lparr>g_figure := []\<rparr>;
     run_each_cell run 25 w
   }"

text \<open>
  In[9]: the two cells are connected in a ring.
  \<^verbatim>\<open>syn1 = h.ExpSyn(cells[1].dend[0](0.5))
  nc1  = h.NetCon(cells[0].soma(0.5)._ref_v, syn1, sec=cells[0].soma)
  nc1.weight[0] = 1
  nc1.delay = 10\<close>
  and the same from the second cell to the first. A NetCon is written with the weight
  and the delay the two assignments give it.
\<close>

definition In9 :: "'e world \<Rightarrow> 'e world option" where
  "In9 w = do {
     c1 \<leftarrow> getitem (g_cells w) 1;
     let syn1 = ExpSyn (dend c1 0 0.5);
     c0 \<leftarrow> getitem (g_cells w) 0;
     let nc1 = \<lparr>nc_source = Ref_v (soma c0 0.5), nc_target = syn1, nc_sec = (c0, Soma),
                nc_weight = 1, nc_delay = 10\<rparr>;
     let w = w\<lparr>g_syn1 := Some syn1, g_nc1 := Some nc1\<rparr>;
     c0 \<leftarrow> getitem (g_cells w) 0;
     let syn2 = ExpSyn (dend c0 0 0.5);
     c1 \<leftarrow> getitem (g_cells w) 1;
     let nc2 = \<lparr>nc_source = Ref_v (soma c1 0.5), nc_target = syn2, nc_sec = (c1, Soma),
                nc_weight = 1, nc_delay = 10\<rparr>;
     Some (w\<lparr>g_syn2 := Some syn2, g_nc2 := Some nc2\<rparr>)
   }"

text \<open>In[10]: the same stimulus on the ring, each cell recorded over its own run of 150 ms.\<close>

definition In10 :: "'e engine \<Rightarrow> 'e world \<Rightarrow> 'e world option" where
  "In10 run w = do {
     w \<leftarrow> stimulate_first w;
     let w = w\<lparr>g_figure := []\<rparr>;
     run_each_cell run 150 w
   }"

text \<open>In[11]: three new cells in a ring.\<close>

definition In11 :: "'e engine \<Rightarrow> 'e world \<Rightarrow> 'e world option" where
  "In11 run w = do {
     let w = w\<lparr>g_N := 3\<rparr>;
     let w = new_cells w;
     w \<leftarrow> set_x 0 0 w;
     w \<leftarrow> set_x 1 100 w;
     w \<leftarrow> set_x 2 200 w;
     w \<leftarrow> stimulate_first w;
     c1 \<leftarrow> getitem (g_cells w) 1;
     let syn1 = ExpSyn (dend c1 0 0.5);
     c0 \<leftarrow> getitem (g_cells w) 0;
     let nc1 = \<lparr>nc_source = Ref_v (soma c0 0.5), nc_target = syn1, nc_sec = (c0, Soma),
                nc_weight = 1, nc_delay = 10\<rparr>;
     let w = w\<lparr>g_syn1 := Some syn1, g_nc1 := Some nc1\<rparr>;
     c2 \<leftarrow> getitem (g_cells w) 2;
     let syn2 = ExpSyn (dend c2 0 0.5);
     c1 \<leftarrow> getitem (g_cells w) 1;
     let nc2 = \<lparr>nc_source = Ref_v (soma c1 0.5), nc_target = syn2, nc_sec = (c1, Soma),
                nc_weight = 1, nc_delay = 10\<rparr>;
     let w = w\<lparr>g_syn2 := Some syn2, g_nc2 := Some nc2\<rparr>;
     c0 \<leftarrow> getitem (g_cells w) 0;
     let syn3 = ExpSyn (dend c0 0 0.5);
     c2 \<leftarrow> getitem (g_cells w) 2;
     let nc3 = \<lparr>nc_source = Ref_v (soma c2 0.5), nc_target = syn3, nc_sec = (c2, Soma),
                nc_weight = 1, nc_delay = 10\<rparr>;
     let w = w\<lparr>g_syn3 := Some syn3, g_nc3 := Some nc3\<rparr>;
     let w = w\<lparr>g_figure := []\<rparr>;
     run_each_cell run 150 w
   }"

text \<open>The cells In[7] to In[11], one after the other.\<close>

definition two_cells :: "'e engine \<Rightarrow> 'e world \<Rightarrow> 'e world option" where
  "two_cells run w = do {
     w \<leftarrow> In7 w;
     w \<leftarrow> In8 run w;
     w \<leftarrow> In9 w;
     In10 run w
   }"

definition three_cells :: "'e engine \<Rightarrow> 'e world \<Rightarrow> 'e world option" where
  "three_cells run w = do {
     w \<leftarrow> two_cells run w;
     In11 run w
   }"

section \<open>Reading a session\<close>

text \<open>What a NetCon watches, the section named as its \<^verbatim>\<open>sec\<close>, and where its synapse sits.\<close>

definition link :: "netcon \<Rightarrow> reference \<times> (nat \<times> secname) \<times> segment" where
  "link nc = (nc_source nc, nc_sec nc, syn_seg (nc_target nc))"

text \<open>What the vector bound to \<^verbatim>\<open>soma_v_vec\<close> records.\<close>

definition watched :: "'e world \<Rightarrow> reference option" where
  "watched w = Option.bind (g_soma_v_vec w) recording"

text \<open>The cells, the stimulus and the connections of a session.\<close>

definition objects ::
  "'e world \<Rightarrow> nat \<times> nat \<times> nat list \<times> iclamp option \<times> netcon option \<times> netcon option \<times> netcon option"
where
  "objects w = (h_created w, g_N w, g_cells w, g_stim w, g_nc1 w, g_nc2 w, g_nc3 w)"

section \<open>The current of a stimulus\<close>

text \<open>
  Modelled from the spec: the current an \<^verbatim>\<open>h.IClamp\<close> injects. The source builds the
  clamp and assigns \<^verbatim>\<open>delay\<close>, \<^verbatim>\<open>dur\<close> and \<^verbatim>\<open>amp\<close>; the current NEURON derives from
  them is not in the repository. The spec (4.2): \<^emph>\<open>\<^verbatim>\<open>current_at(t)\<close> returns
  \<^verbatim>\<open>amplitude\<close> if \<^verbatim>\<open>delay \<le> t < delay+duration\<close>, else 0. Multiple stimuli on one cell
  sum their contributions.\<close> Times and currents are real numbers here; the program
  holds them as floating-point doubles.
\<close>

definition current_at :: "iclamp \<Rightarrow> real \<Rightarrow> real" where
  "current_at stim t =
     (if ic_delay stim \<le> t \<and> t < ic_delay stim + ic_dur stim then ic_amp stim else 0)"

text \<open>
  Modelled from the spec: the current a cell receives from the stimuli attached to it,
  the sum of their contributions (spec 4.2); NEURON adds the clamps up, not the source.
\<close>

definition injected :: "iclamp list \<Rightarrow> nat \<Rightarrow> real \<Rightarrow> real" where
  "injected stims cell t =
     sum_list (map (\<lambda>stim. current_at stim t) (filter (\<lambda>stim. seg_cell (ic_seg stim) = cell) stims))"

section \<open>The stop time of a run\<close>

text \<open>
  C9: \<^verbatim>\<open>simulate\<close> called with no argument runs the simulation for a stop time of
  exactly 25, and called with an argument \<open>T\<close> it sets the global stop time to \<open>T\<close>
  before it runs: whatever the engine is, it is started on the session whose
  \<^verbatim>\<open>h.tstop\<close> is that value, and the value still stands when the call returns.
\<close>

theorem simulate_stop_time:
  "simulate run None w = h_run run (w\<lparr>h_tstop := 25\<rparr>)
   \<and> simulate run (Some T) w = h_run run (w\<lparr>h_tstop := T\<rparr>)
   \<and> h_tstop (simulate run None w) = 25
   \<and> h_tstop (simulate run (Some T) w) = T"
  by (simp add: simulate_def h_run_def Let_def split: prod.split)

section \<open>The notebook cells run, whatever the engine\<close>

lemma upt_two: "[0..<2] = [0, Suc 0]"
  by (simp add: upt_rec)

lemma upt_three: "[0..<3] = [0, Suc 0, Suc (Suc 0)]"
  by (simp add: upt_rec)

text \<open>One turn of the loop records the cell it is given and changes no object.\<close>

lemma record_and_run_ok:
  "i < length (g_cells w) \<Longrightarrow>
   \<exists>w'. record_and_run run T i w = Some w' \<and> objects w' = objects w
      \<and> watched w' = Some (Ref_v (soma (g_cells w ! i) (1/2)))"
  by (simp add: record_and_run_def getitem_def set_recording_vectors_def simulate_def h_run_def
        plot_def Let_def objects_def watched_def refill_def vec_record_def Vector_def case_prod_beta)

lemma run_each_cell_two:
  assumes "g_N w = 2" "g_cells w = [a, b]"
  shows "\<exists>w'. run_each_cell run T w = Some w' \<and> objects w' = objects w
      \<and> watched w' = Some (Ref_v (soma b (1/2)))"
proof -
  obtain w1 where 1: "record_and_run run T 0 w = Some w1" "objects w1 = objects w"
    using record_and_run_ok[of 0 w run T] assms by auto
  then have c: "g_cells w1 = [a, b]" using assms by (simp add: objects_def)
  obtain w2 where 2: "record_and_run run T (Suc 0) w1 = Some w2" "objects w2 = objects w1"
      "watched w2 = Some (Ref_v (soma b (1/2)))"
    using record_and_run_ok[of "Suc 0" w1 run T] c by auto
  show ?thesis using 1 2 assms by (simp add: run_each_cell_def upt_two)
qed

lemma run_each_cell_three:
  assumes "g_N w = 3" "g_cells w = [a, b, c]"
  shows "\<exists>w'. run_each_cell run T w = Some w' \<and> objects w' = objects w
      \<and> watched w' = Some (Ref_v (soma c (1/2)))"
proof -
  obtain w1 where 1: "record_and_run run T 0 w = Some w1" "objects w1 = objects w"
    using record_and_run_ok[of 0 w run T] assms by auto
  then have c1: "g_cells w1 = [a, b, c]" using assms by (simp add: objects_def)
  obtain w2 where 2: "record_and_run run T (Suc 0) w1 = Some w2" "objects w2 = objects w1"
    using record_and_run_ok[of "Suc 0" w1 run T] c1 by auto
  then have c2: "g_cells w2 = [a, b, c]" using c1 by (simp add: objects_def)
  obtain w3 where 3: "record_and_run run T (Suc (Suc 0)) w2 = Some w3" "objects w3 = objects w2"
      "watched w3 = Some (Ref_v (soma c (1/2)))"
    using record_and_run_ok[of "Suc (Suc 0)" w2 run T] c2 by auto
  show ?thesis using 1 2 3 assms by (simp add: run_each_cell_def upt_three)
qed

lemma In7_ok:
  "\<exists>w'. In7 w = Some w' \<and> g_N w' = 2 \<and> g_cells w' = [h_created w, h_created w + 1]
     \<and> h_created w' = h_created w + 2"
  by (simp add: In7_def new_cells_def set_x_def getitem_def upt_two Let_def)

lemma stimulate_first_ok:
  "g_cells w = a # rest \<Longrightarrow>
   \<exists>w'. stimulate_first w = Some w' \<and> g_stim w' = Some (attach_current_clamp a 5 1 0.6)
     \<and> g_N w' = g_N w \<and> g_cells w' = g_cells w \<and> h_created w' = h_created w
     \<and> g_nc1 w' = g_nc1 w \<and> g_nc2 w' = g_nc2 w \<and> g_nc3 w' = g_nc3 w"
  by (simp add: stimulate_first_def getitem_def)

lemma In8_ok:
  assumes "g_N w = 2" "g_cells w = [a, b]"
  shows "\<exists>w'. In8 run w = Some w' \<and> g_N w' = 2 \<and> g_cells w' = [a, b]
     \<and> h_created w' = h_created w
     \<and> g_stim w' = Some (attach_current_clamp a 5 1 0.6)
     \<and> watched w' = Some (Ref_v (soma b (1/2)))
     \<and> g_nc1 w' = g_nc1 w \<and> g_nc2 w' = g_nc2 w \<and> g_nc3 w' = g_nc3 w"
proof -
  obtain w1 where 1: "stimulate_first w = Some w1"
      "g_stim w1 = Some (attach_current_clamp a 5 1 0.6)"
      "g_N w1 = 2" "g_cells w1 = [a, b]" "h_created w1 = h_created w"
      "g_nc1 w1 = g_nc1 w" "g_nc2 w1 = g_nc2 w" "g_nc3 w1 = g_nc3 w"
    using stimulate_first_ok[of w a "[b]"] assms by auto
  let ?w2 = "w1\<lparr>g_figure := []\<rparr>"
  obtain w3 where 3: "run_each_cell run 25 ?w2 = Some w3" "objects w3 = objects ?w2"
      "watched w3 = Some (Ref_v (soma b (1/2)))"
    using run_each_cell_two[of ?w2 a b run 25] 1 by auto
  show ?thesis using 1 3 by (simp add: In8_def objects_def)
qed

lemma In9_ok:
  assumes "g_cells w = [a, b]"
  shows "\<exists>w'. In9 w = Some w' \<and> g_N w' = g_N w \<and> g_cells w' = [a, b]
     \<and> h_created w' = h_created w \<and> g_stim w' = g_stim w \<and> g_nc3 w' = g_nc3 w
     \<and> map_option link (g_nc1 w') = Some (Ref_v (soma a (1/2)), (a, Soma), dend b 0 (1/2))
     \<and> map_option link (g_nc2 w') = Some (Ref_v (soma b (1/2)), (b, Soma), dend a 0 (1/2))
     \<and> map_option nc_weight (g_nc1 w') = Some 1 \<and> map_option nc_delay (g_nc1 w') = Some 10
     \<and> map_option nc_weight (g_nc2 w') = Some 1 \<and> map_option nc_delay (g_nc2 w') = Some 10"
  using assms by (simp add: In9_def getitem_def link_def ExpSyn_def Let_def)

lemma In10_ok:
  assumes "g_N w = 2" "g_cells w = [a, b]"
  shows "\<exists>w'. In10 run w = Some w' \<and> g_N w' = 2 \<and> g_cells w' = [a, b]
     \<and> h_created w' = h_created w
     \<and> g_stim w' = Some (attach_current_clamp a 5 1 0.6)
     \<and> watched w' = Some (Ref_v (soma b (1/2)))
     \<and> g_nc1 w' = g_nc1 w \<and> g_nc2 w' = g_nc2 w \<and> g_nc3 w' = g_nc3 w"
proof -
  obtain w1 where 1: "stimulate_first w = Some w1"
      "g_stim w1 = Some (attach_current_clamp a 5 1 0.6)"
      "g_N w1 = 2" "g_cells w1 = [a, b]" "h_created w1 = h_created w"
      "g_nc1 w1 = g_nc1 w" "g_nc2 w1 = g_nc2 w" "g_nc3 w1 = g_nc3 w"
    using stimulate_first_ok[of w a "[b]"] assms by auto
  let ?w2 = "w1\<lparr>g_figure := []\<rparr>"
  obtain w3 where 3: "run_each_cell run 150 ?w2 = Some w3" "objects w3 = objects ?w2"
      "watched w3 = Some (Ref_v (soma b (1/2)))"
    using run_each_cell_two[of ?w2 a b run 150] 1 by auto
  show ?thesis using 1 3 by (simp add: In10_def objects_def)
qed

lemma new_cells_three:
  "g_N w = 3 \<Longrightarrow>
   g_cells (new_cells w) = [h_created w, h_created w + 1, h_created w + 2]
     \<and> g_N (new_cells w) = 3 \<and> h_created (new_cells w) = h_created w + 3"
  by (simp add: new_cells_def upt_three)

lemma set_x_ok:
  "i < length (g_cells w) \<Longrightarrow>
   \<exists>w'. set_x i v w = Some w' \<and> g_N w' = g_N w \<and> g_cells w' = g_cells w
     \<and> h_created w' = h_created w"
  by (simp add: set_x_def getitem_def)

lemma In11_ok:
  fixes w :: "'e world"
  shows "\<exists>w'. In11 run w = Some w'
     \<and> g_cells w' = [h_created w, h_created w + 1, h_created w + 2]
     \<and> g_stim w' = Some (attach_current_clamp (h_created w) 5 1 0.6)
     \<and> watched w' = Some (Ref_v (soma (h_created w + 2) (1/2)))
     \<and> map_option link (g_nc1 w')
         = Some (Ref_v (soma (h_created w) (1/2)), (h_created w, Soma), dend (h_created w + 1) 0 (1/2))
     \<and> map_option link (g_nc2 w')
         = Some (Ref_v (soma (h_created w + 1) (1/2)), (h_created w + 1, Soma), dend (h_created w + 2) 0 (1/2))
     \<and> map_option link (g_nc3 w')
         = Some (Ref_v (soma (h_created w + 2) (1/2)), (h_created w + 2, Soma), dend (h_created w) 0 (1/2))"
proof -
  let ?a = "h_created w" and ?b = "h_created w + 1" and ?c = "h_created w + 2"
  let ?cs = "[?a, ?b, ?c]"
  let ?w0 = "new_cells (w\<lparr>g_N := 3\<rparr>)"
  have 0: "g_cells ?w0 = ?cs" "g_N ?w0 = 3"
    using new_cells_three[of "w\<lparr>g_N := 3\<rparr>"] by simp_all
  obtain w1 where 1: "set_x 0 0 ?w0 = Some w1" "g_cells w1 = ?cs" "g_N w1 = 3"
    using set_x_ok[of 0 ?w0 0] 0 by auto
  obtain w2 where 2: "set_x 1 100 w1 = Some w2" "g_cells w2 = ?cs" "g_N w2 = 3"
    using set_x_ok[of 1 w1 100] 1 by auto
  obtain w3 where 3: "set_x 2 200 w2 = Some w3" "g_cells w3 = ?cs" "g_N w3 = 3"
    using set_x_ok[of 2 w2 200] 2 by auto
  obtain w4 where 4: "stimulate_first w3 = Some w4" "g_cells w4 = ?cs" "g_N w4 = 3"
      "g_stim w4 = Some (attach_current_clamp ?a 5 1 0.6)"
    using stimulate_first_ok[of w3 ?a "[?b, ?c]"] 3 by auto
  let ?syn1 = "ExpSyn (dend ?b 0 (1/2))"
  let ?syn2 = "ExpSyn (dend ?c 0 (1/2))"
  let ?syn3 = "ExpSyn (dend ?a 0 (1/2))"
  let ?nc1 = "\<lparr>nc_source = Ref_v (soma ?a (1/2)), nc_target = ?syn1, nc_sec = (?a, Soma),
                nc_weight = 1, nc_delay = 10\<rparr>"
  let ?nc2 = "\<lparr>nc_source = Ref_v (soma ?b (1/2)), nc_target = ?syn2, nc_sec = (?b, Soma),
                nc_weight = 1, nc_delay = 10\<rparr>"
  let ?nc3 = "\<lparr>nc_source = Ref_v (soma ?c (1/2)), nc_target = ?syn3, nc_sec = (?c, Soma),
                nc_weight = 1, nc_delay = 10\<rparr>"
  let ?w5 = "w4\<lparr>g_syn1 := Some ?syn1, g_nc1 := Some ?nc1, g_syn2 := Some ?syn2,
                 g_nc2 := Some ?nc2, g_syn3 := Some ?syn3, g_nc3 := Some ?nc3, g_figure := []\<rparr>"
  obtain w6 where 6: "run_each_cell run 150 ?w5 = Some w6" "objects w6 = objects ?w5"
      "watched w6 = Some (Ref_v (soma ?c (1/2)))"
    using run_each_cell_three[of ?w5 ?a ?b ?c run 150] 4 by auto
  have "In11 run w = Some w6"
    using 1 2 3 4 6 by (simp add: In11_def getitem_def Let_def)
  then show ?thesis using 4 6 by (simp add: objects_def link_def ExpSyn_def)
qed

lemma two_cells_ok:
  fixes w :: "'e world"
  shows "\<exists>w'. two_cells run w = Some w'
     \<and> h_created w' = h_created w + 2
     \<and> g_cells w' = [h_created w, h_created w + 1]
     \<and> g_stim w' = Some (attach_current_clamp (h_created w) 5 1 0.6)
     \<and> watched w' = Some (Ref_v (soma (h_created w + 1) (1/2)))
     \<and> map_option link (g_nc1 w')
         = Some (Ref_v (soma (h_created w) (1/2)), (h_created w, Soma), dend (h_created w + 1) 0 (1/2))
     \<and> map_option link (g_nc2 w')
         = Some (Ref_v (soma (h_created w + 1) (1/2)), (h_created w + 1, Soma), dend (h_created w) 0 (1/2))"
proof -
  let ?a = "h_created w" and ?b = "h_created w + 1"
  obtain w1 where 1: "In7 w = Some w1" "g_N w1 = 2" "g_cells w1 = [?a, ?b]"
      "h_created w1 = ?a + 2"
    using In7_ok[of w] by auto
  obtain w2 where 2: "In8 run w1 = Some w2" "g_N w2 = 2" "g_cells w2 = [?a, ?b]"
      "h_created w2 = ?a + 2"
    using In8_ok[of w1 ?a ?b run] 1 by auto
  obtain w3 where 3: "In9 w2 = Some w3" "g_N w3 = 2" "g_cells w3 = [?a, ?b]"
      "h_created w3 = ?a + 2"
      "map_option link (g_nc1 w3) = Some (Ref_v (soma ?a (1/2)), (?a, Soma), dend ?b 0 (1/2))"
      "map_option link (g_nc2 w3) = Some (Ref_v (soma ?b (1/2)), (?b, Soma), dend ?a 0 (1/2))"
    using In9_ok[of w2 ?a ?b] 2 by auto
  obtain w4 where 4: "In10 run w3 = Some w4" "g_cells w4 = [?a, ?b]" "h_created w4 = ?a + 2"
      "g_stim w4 = Some (attach_current_clamp ?a 5 1 0.6)"
      "watched w4 = Some (Ref_v (soma ?b (1/2)))" "g_nc1 w4 = g_nc1 w3" "g_nc2 w4 = g_nc2 w3"
    using In10_ok[of w3 ?a ?b run] 3 by auto
  have "two_cells run w = Some w4" using 1 2 3 4 by (simp add: two_cells_def)
  then show ?thesis using 3 4 by simp
qed

section \<open>Where the script stimulates, records and connects\<close>

text \<open>
  C10: every construction of the script uses the same sites. A stimulus made by
  \<^verbatim>\<open>attach_current_clamp\<close> sits on \<^verbatim>\<open>soma(0.5)\<close> of the cell it is given, and the voltage
  vector of \<^verbatim>\<open>set_recording_vectors\<close> records \<^verbatim>\<open>soma(0.5)\<close> of its cell (the other vector
  records the time). Whatever the engine and the session they start in, the cells
  In[7] to In[10] and then In[11] run to their end, and in the session they leave the
  stimulus is on \<^verbatim>\<open>soma(0.5)\<close> of the first cell, the voltage vector records \<^verbatim>\<open>soma(0.5)\<close>
  of the last cell, and every NetCon watches \<^verbatim>\<open>soma(0.5)\<close> of its source cell, names
  that soma as its section, and has its synapse on \<^verbatim>\<open>dend[0](0.5)\<close> of its target cell:
  first to second and back in the ring of two, first to second to third and back in
  the ring of three.
\<close>

theorem sites_are_uniform:
  fixes w :: "'e world"
  shows "ic_seg (attach_current_clamp cell delay dur amp) = soma cell (1/2)
   \<and> recording (fst (set_recording_vectors cell)) = Some (Ref_v (soma cell (1/2)))
   \<and> recording (snd (set_recording_vectors cell)) = Some Ref_t
   \<and> (\<exists>w'. two_cells run w = Some w'
        \<and> map_option ic_seg (g_stim w') = Some (soma (h_created w) (1/2))
        \<and> watched w' = Some (Ref_v (soma (h_created w + 1) (1/2)))
        \<and> map_option link (g_nc1 w')
            = Some (Ref_v (soma (h_created w) (1/2)), (h_created w, Soma),
                    dend (h_created w + 1) 0 (1/2))
        \<and> map_option link (g_nc2 w')
            = Some (Ref_v (soma (h_created w + 1) (1/2)), (h_created w + 1, Soma),
                    dend (h_created w) 0 (1/2)))
   \<and> (\<exists>w'. three_cells run w = Some w'
        \<and> map_option ic_seg (g_stim w') = Some (soma (h_created w + 2) (1/2))
        \<and> watched w' = Some (Ref_v (soma (h_created w + 4) (1/2)))
        \<and> map_option link (g_nc1 w')
            = Some (Ref_v (soma (h_created w + 2) (1/2)), (h_created w + 2, Soma),
                    dend (h_created w + 3) 0 (1/2))
        \<and> map_option link (g_nc2 w')
            = Some (Ref_v (soma (h_created w + 3) (1/2)), (h_created w + 3, Soma),
                    dend (h_created w + 4) 0 (1/2))
        \<and> map_option link (g_nc3 w')
            = Some (Ref_v (soma (h_created w + 4) (1/2)), (h_created w + 4, Soma),
                    dend (h_created w + 2) 0 (1/2)))"
proof -
  have a: "ic_seg (attach_current_clamp c d u m) = soma c (1/2)" for c d u m
    by (simp add: attach_current_clamp_def)
  have b: "recording (fst (set_recording_vectors cell)) = Some (Ref_v (soma cell (1/2)))"
      "recording (snd (set_recording_vectors cell)) = Some Ref_t"
    by (simp_all add: set_recording_vectors_def vec_record_def Vector_def Let_def)
  obtain w2 where 2: "two_cells run w = Some w2" "h_created w2 = h_created w + 2"
      "g_stim w2 = Some (attach_current_clamp (h_created w) 5 1 0.6)"
      "watched w2 = Some (Ref_v (soma (h_created w + 1) (1/2)))"
      "map_option link (g_nc1 w2)
         = Some (Ref_v (soma (h_created w) (1/2)), (h_created w, Soma), dend (h_created w + 1) 0 (1/2))"
      "map_option link (g_nc2 w2)
         = Some (Ref_v (soma (h_created w + 1) (1/2)), (h_created w + 1, Soma), dend (h_created w) 0 (1/2))"
    using two_cells_ok[of run w] by auto
  obtain w3 where 3: "In11 run w2 = Some w3"
     "g_stim w3 = Some (attach_current_clamp (h_created w2) 5 1 0.6)"
     "watched w3 = Some (Ref_v (soma (h_created w2 + 2) (1/2)))"
     "map_option link (g_nc1 w3)
        = Some (Ref_v (soma (h_created w2) (1/2)), (h_created w2, Soma), dend (h_created w2 + 1) 0 (1/2))"
     "map_option link (g_nc2 w3)
        = Some (Ref_v (soma (h_created w2 + 1) (1/2)), (h_created w2 + 1, Soma), dend (h_created w2 + 2) 0 (1/2))"
     "map_option link (g_nc3 w3)
        = Some (Ref_v (soma (h_created w2 + 2) (1/2)), (h_created w2 + 2, Soma), dend (h_created w2) 0 (1/2))"
    using In11_ok[of run w2] by auto
  have t: "three_cells run w = Some w3" using 2 3 by (simp add: three_cells_def)
  show ?thesis
    using a b 2 3 t by (simp add: eval_nat_numeral)
qed

section \<open>What a stimulus injects\<close>

lemma injected_Cons:
  "injected (stim # stims) cell t =
     (if seg_cell (ic_seg stim) = cell then current_at stim t else 0) + injected stims cell t"
  by (simp add: injected_def)

lemma current_at_attached:
  "current_at (attach_current_clamp cell delay dur amp) t =
     (if delay \<le> t \<and> t < delay + dur then amp else 0)"
  by (simp add: current_at_def attach_current_clamp_def)

lemma attached_cell: "seg_cell (ic_seg (attach_current_clamp cell delay dur amp)) = cell"
  by (simp add: attach_current_clamp_def soma_def)

lemma injected_attached:
  "injected (map (\<lambda>(delay, dur, amp). attach_current_clamp cell delay dur amp) ps) cell t =
     (\<Sum>(delay, dur, amp)\<leftarrow>ps. if delay \<le> t \<and> t < delay + dur then amp else 0)"
proof (induction ps)
  case Nil
  show ?case by (simp add: injected_def)
next
  case (Cons p ps)
  obtain delay dur amp where p: "p = (delay, dur, amp)" by (cases p)
  show ?case using Cons.IH by (simp add: p injected_Cons current_at_attached attached_cell)
qed

text \<open>
  C2: the stimulus \<^verbatim>\<open>attach_current_clamp(cell, delay, dur, amp)\<close> builds injects \<open>amp\<close>
  at every time \<open>t\<close> with \<open>delay \<le> t < delay + dur\<close> and nothing at any other time, for
  every amplitude (so for every amplitude that is not negative); the stimuli attached
  to one cell add up: any number of them inject the sum of what each injects, and one
  more stimulus on the cell adds its own current to that of the others.
\<close>

theorem stimulus_current:
  "current_at (attach_current_clamp cell delay dur amp) t =
     (if delay \<le> t \<and> t < delay + dur then amp else 0)
   \<and> injected (map (\<lambda>(delay, dur, amp). attach_current_clamp cell delay dur amp) ps) cell t =
     (\<Sum>(delay, dur, amp)\<leftarrow>ps. if delay \<le> t \<and> t < delay + dur then amp else 0)
   \<and> injected (attach_current_clamp cell delay dur amp # stims) cell t =
       current_at (attach_current_clamp cell delay dur amp) t + injected stims cell t"
  by (simp add: current_at_attached injected_attached injected_Cons attached_cell)

text \<open>
  The stimulus of the script, 0.6 nA from 5 ms for 1 ms: on at 5, off at 6 and before 5;
  with a second stimulus of 0.25 nA over [5, 7) on the same cell the two add up.
\<close>

theorem stimulus_current_example:
  "current_at (attach_current_clamp 0 5 1 0.6) 5 = 0.6
   \<and> current_at (attach_current_clamp 0 5 1 0.6) 6 = 0
   \<and> current_at (attach_current_clamp 0 5 1 0.6) 4.9 = 0
   \<and> injected [attach_current_clamp 0 5 1 0.6, attach_current_clamp 0 5 2 0.25] 0 5.5 = 0.85"
  using stimulus_current[of 0 5 1 "0.6" 5 "[]" "[]"] stimulus_current[of 0 5 1 "0.6" 6 "[]" "[]"]
    stimulus_current[of 0 5 1 "0.6" "4.9" "[]" "[]"]
    stimulus_current[of 0 5 1 "0.6" "5.5" "[(5, 1, 0.6), (5, 2, 0.25)]" "[]"]
  by simp

end
